theory Spec2Isabelle
  imports Main "HOL-Library.Multiset"
begin

section \<open>Collaborators of the template tree: spans, tokens\<close>

text \<open>
  The files \<^verbatim>\<open>location.ts\<close>, \<^verbatim>\<open>tokenizer/lexer.ts\<close>, \<^verbatim>\<open>tokenizer/ast_path.ts\<close> and
  \<^verbatim>\<open>template.ts\<close> are imported by the two source files but are not part of them. What the
  code below needs of them is modelled from the specification's description of the
  collaborators (sections 3 and 6).
\<close>

text \<open>
  Modelled from the spec: \<^verbatim>\<open>LocationSpan\<close> (\<^verbatim>\<open>location.ts\<close> is missing). A span is a half-open
  offset range \<open>[start, end)\<close> into one text buffer. \<^verbatim>\<open>getStart().getOffset()\<close> is
  \<open>startOffset\<close>. Offsets are JavaScript numbers holding integers; a shift may be negative.
\<close>

record LocationSpan =
  startOffset :: int
  endOffset :: int

text \<open>
  Modelled from the spec: the lexer's \<^verbatim>\<open>TokenType\<close> enum (\<^verbatim>\<open>lexer.ts\<close> is missing). The
  members named by \<^verbatim>\<open>template-nodes.ts\<close> are \<open>TAG_OPEN_START\<close>, \<open>TAG_CLOSE\<close>, \<open>TEXT\<close>,
  \<open>ATTR_NAME\<close> and \<open>ATTR_VALUE\<close>; the others stand for the remaining members.
\<close>

datatype TokenType =
    TAG_OPEN_START | TAG_OPEN_END | TAG_OPEN_END_VOID | TAG_CLOSE | TEXT
  | COMMENT_START | COMMENT_END | ATTR_NAME | ATTR_VALUE | EOF

text \<open>
  Modelled from the spec: \<^verbatim>\<open>Token\<close> (\<^verbatim>\<open>lexer.ts\<close> is missing): a type tag and one span.
\<close>

record Token =
  tokenType :: TokenType
  tokenSpan :: LocationSpan

section \<open>Raw parse tree (tokenizer/ast.ts)\<close>

text \<open>
  The six classes implementing \<^verbatim>\<open>Node\<close>, with their constructor parameters in the order of
  the source. \<^verbatim>\<open>Expansion.cases\<close> (\<^verbatim>\<open>ExpansionCase[]\<close>) and \<^verbatim>\<open>Element.attrs\<close> (\<^verbatim>\<open>Attribute[]\<close>)
  are lists of nodes; \<^verbatim>\<open>T | null\<close> and optional parameters are options.
\<close>

datatype Node =
    Text "Token list" string LocationSpan
  | Expansion "Token list" string string "Node list" LocationSpan LocationSpan
  | ExpansionCase "Token list" string "Node list" LocationSpan LocationSpan LocationSpan
  | Attribute "Token list" string string LocationSpan "LocationSpan option"
  | Element "Token list" string "Node list" "Node list" LocationSpan
      "LocationSpan option" "LocationSpan option"
  | Comment "Token list" "string option" LocationSpan

fun locationSpan :: "Node \<Rightarrow> LocationSpan" where
  "locationSpan (Text tokens v ls) = ls"
| "locationSpan (Expansion tokens switchValue ty cases ls svs) = ls"
| "locationSpan (ExpansionCase tokens v expression ls vs es) = ls"
| "locationSpan (Attribute tokens name v ls vs) = ls"
| "locationSpan (Element tokens name attrs children ls startSourceSpan endSourceSpan) = ls"
| "locationSpan (Comment tokens v ls) = ls"

fun isElement :: "Node \<Rightarrow> bool" where
  "isElement (Element tokens name attrs children ls startSourceSpan endSourceSpan) = True"
| "isElement n = False"

subsection \<open>JavaScript values returned by visitors\<close>

text \<open>
  Visitor methods return \<^verbatim>\<open>any\<close>. The values that matter for \<^verbatim>\<open>visitAll\<close> are told apart
  by truthiness: \<^verbatim>\<open>undefined\<close>, \<^verbatim>\<open>null\<close>, \<^verbatim>\<open>false\<close>, \<^verbatim>\<open>0\<close> and the empty string are falsy,
  everything else (every array, the empty one included) is truthy.
\<close>

datatype JsValue =
    JUndefined | JNull | JBool bool | JNum int | JStr string | JArr "JsValue list"

fun truthy :: "JsValue \<Rightarrow> bool" where
  "truthy JUndefined = False"
| "truthy JNull = False"
| "truthy (JBool b) = b"
| "truthy (JNum n) = (n \<noteq> 0)"
| "truthy (JStr s) = (s \<noteq> [])"
| "truthy (JArr xs) = True"

subsection \<open>Visitor and visitAll\<close>

text \<open>
  A visitor is an object with six kind-specific methods and an optional generic
  \<^verbatim>\<open>visit\<close> hook. Methods may have effects (the visitor of \<^verbatim>\<open>findNode\<close> pushes onto a
  captured array), so each takes the state \<open>'s\<close> and returns it with its result.
\<close>

record 's Visitor =
  visit :: "(Node \<Rightarrow> JsValue \<Rightarrow> 's \<Rightarrow> JsValue \<times> 's) option"
  visitElement :: "Node \<Rightarrow> JsValue \<Rightarrow> 's \<Rightarrow> JsValue \<times> 's"
  visitAttribute :: "Node \<Rightarrow> JsValue \<Rightarrow> 's \<Rightarrow> JsValue \<times> 's"
  visitText :: "Node \<Rightarrow> JsValue \<Rightarrow> 's \<Rightarrow> JsValue \<times> 's"
  visitComment :: "Node \<Rightarrow> JsValue \<Rightarrow> 's \<Rightarrow> JsValue \<times> 's"
  visitExpansion :: "Node \<Rightarrow> JsValue \<Rightarrow> 's \<Rightarrow> JsValue \<times> 's"
  visitExpansionCase :: "Node \<Rightarrow> JsValue \<Rightarrow> 's \<Rightarrow> JsValue \<times> 's"

text \<open>\<^verbatim>\<open>ast.visit(visitor, context)\<close>: each class calls the visitor method of its kind.\<close>

fun Node_visit :: "Node \<Rightarrow> 's Visitor \<Rightarrow> JsValue \<Rightarrow> 's \<Rightarrow> JsValue \<times> 's" where
  "Node_visit (Text tokens v ls) visitor context s =
     visitText visitor (Text tokens v ls) context s"
| "Node_visit (Expansion tokens sv ty cases ls svs) visitor context s =
     visitExpansion visitor (Expansion tokens sv ty cases ls svs) context s"
| "Node_visit (ExpansionCase tokens v expression ls vs es) visitor context s =
     visitExpansionCase visitor (ExpansionCase tokens v expression ls vs es) context s"
| "Node_visit (Attribute tokens name v ls vs) visitor context s =
     visitAttribute visitor (Attribute tokens name v ls vs) context s"
| "Node_visit (Element tokens name attrs children ls ss es) visitor context s =
     visitElement visitor (Element tokens name attrs children ls ss es) context s"
| "Node_visit (Comment tokens v ls) visitor context s =
     visitComment visitor (Comment tokens v ls) context s"

text \<open>
  The closure \<^verbatim>\<open>visit\<close> that \<^verbatim>\<open>visitAll\<close> builds: with a hook,
  \<^verbatim>\<open>visitor.visit(ast, context) || ast.visit(visitor, context)\<close>; without one,
  \<^verbatim>\<open>ast.visit(visitor, context)\<close>.
\<close>

definition visitAll_visit :: "'s Visitor \<Rightarrow> JsValue \<Rightarrow> Node \<Rightarrow> 's \<Rightarrow> JsValue \<times> 's" where
  "visitAll_visit visitor context ast s =
     (case visit visitor of
        Some hook \<Rightarrow>
          (case hook ast context s of
             (r, s1) \<Rightarrow> if truthy r then (r, s1) else Node_visit ast visitor context s1)
      | None \<Rightarrow> Node_visit ast visitor context s)"

text \<open>The \<^verbatim>\<open>forEach\<close> of \<^verbatim>\<open>visitAll\<close>, with the array \<^verbatim>\<open>result\<close> as accumulator.\<close>

fun visitAll_forEach ::
  "'s Visitor \<Rightarrow> JsValue \<Rightarrow> Node list \<Rightarrow> JsValue list \<Rightarrow> 's \<Rightarrow> JsValue list \<times> 's" where
  "visitAll_forEach visitor context [] result s = (result, s)"
| "visitAll_forEach visitor context (ast # nodes) result s =
     (case visitAll_visit visitor context ast s of
        (astResult, s1) \<Rightarrow>
          visitAll_forEach visitor context nodes
            (if truthy astResult then result @ [astResult] else result) s1)"

definition visitAll :: "'s Visitor \<Rightarrow> Node list \<Rightarrow> JsValue \<Rightarrow> 's \<Rightarrow> JsValue list \<times> 's" where
  "visitAll visitor nodes context s = visitAll_forEach visitor context nodes [] s"

text \<open>
  The per-node results as the specification words them: every node's result in input
  order, falsy ones included, with the state threaded through the nodes.
\<close>

fun perNodeResults ::
  "'s Visitor \<Rightarrow> JsValue \<Rightarrow> Node list \<Rightarrow> 's \<Rightarrow> JsValue list \<times> 's" where
  "perNodeResults visitor context [] s = ([], s)"
| "perNodeResults visitor context (ast # nodes) s =
     (case visitAll_visit visitor context ast s of
        (r, s1) \<Rightarrow>
          (case perNodeResults visitor context nodes s1 of
             (rs, s2) \<Rightarrow> (r # rs, s2)))"

subsection \<open>spanOf\<close>

text \<open>The object \<^verbatim>\<open>{ start, end }\<close> that \<^verbatim>\<open>spanOf\<close> returns.\<close>

record OffsetRange =
  range_start :: int
  range_end :: int

function spanOf :: "Node \<Rightarrow> OffsetRange" where
  "spanOf (Element tokens name attrs children ls startSourceSpan endSourceSpan) =
     (case endSourceSpan of
        Some e \<Rightarrow> \<lparr>range_start = startOffset ls, range_end = startOffset e\<rparr>
      | None \<Rightarrow>
          if children \<noteq> []
          then \<lparr>range_start = startOffset ls, range_end = range_end (spanOf (last children))\<rparr>
          else \<lparr>range_start = startOffset ls, range_end = startOffset ls\<rparr>)"
| "spanOf (Text tokens v ls) = \<lparr>range_start = startOffset ls, range_end = startOffset ls\<rparr>"
| "spanOf (Expansion tokens sv ty cases ls svs) =
     \<lparr>range_start = startOffset ls, range_end = startOffset ls\<rparr>"
| "spanOf (ExpansionCase tokens v expression ls vs es) =
     \<lparr>range_start = startOffset ls, range_end = startOffset ls\<rparr>"
| "spanOf (Attribute tokens name v ls vs) =
     \<lparr>range_start = startOffset ls, range_end = startOffset ls\<rparr>"
| "spanOf (Comment tokens v ls) = \<lparr>range_start = startOffset ls, range_end = startOffset ls\<rparr>"
  by pat_completeness auto
termination
proof (relation "measure size")
  show "wf (measure (size :: Node \<Rightarrow> nat))" by simp
next
  fix tokens :: "Token list" and name :: string and attrs children :: "Node list"
    and ls :: LocationSpan and startSourceSpan endSourceSpan :: "LocationSpan option"
  assume ne: "children \<noteq> []"
  have "size (last xs) \<le> size_list size xs" if "xs \<noteq> []" for xs :: "Node list"
    using that by (induction xs) auto
  from this [OF ne]
  show "(last children, Element tokens name attrs children ls startSourceSpan endSourceSpan)
          \<in> measure size"
    by simp
qed

subsection \<open>RecursiveVisitor and findNode\<close>

text \<open>
  \<^verbatim>\<open>RecursiveVisitor\<close> calls \<^verbatim>\<open>visitAll(this, ...)\<close> from its own methods, so its traversal is
  a recursion over the tree. \<open>rv_visit\<close> is the closure \<^verbatim>\<open>visit\<close> of \<^verbatim>\<open>visitAll\<close> for
  \<^verbatim>\<open>this\<close>, \<open>rv_dispatch\<close> is \<^verbatim>\<open>ast.visit(this, context)\<close>, \<open>rv_forEach\<close> the loop of
  \<^verbatim>\<open>visitAll\<close>. The parameter \<open>hook\<close> is the \<^verbatim>\<open>visit\<close> member a subclass may add
  (\<^verbatim>\<open>RecursiveVisitor\<close> itself has none).

  \<^verbatim>\<open>visitElement\<close> visits \<^verbatim>\<open>attrs\<close>, then \<^verbatim>\<open>children\<close>, and has no \<^verbatim>\<open>return\<close>: its result is
  \<^verbatim>\<open>undefined\<close>. \<^verbatim>\<open>visitExpansion\<close> returns the concatenation built by \<^verbatim>\<open>visitChildren\<close>
  from the one list of results of \<^verbatim>\<open>cases\<close>. The other four methods have empty bodies.
\<close>

fun rv_visit ::
    "(Node \<Rightarrow> JsValue \<Rightarrow> 's \<Rightarrow> JsValue \<times> 's) option \<Rightarrow> JsValue \<Rightarrow> Node \<Rightarrow> 's \<Rightarrow> JsValue \<times> 's"
  and rv_dispatch ::
    "(Node \<Rightarrow> JsValue \<Rightarrow> 's \<Rightarrow> JsValue \<times> 's) option \<Rightarrow> JsValue \<Rightarrow> Node \<Rightarrow> 's \<Rightarrow> JsValue \<times> 's"
  and rv_forEach ::
    "(Node \<Rightarrow> JsValue \<Rightarrow> 's \<Rightarrow> JsValue \<times> 's) option \<Rightarrow> JsValue \<Rightarrow> Node list \<Rightarrow> JsValue list
       \<Rightarrow> 's \<Rightarrow> JsValue list \<times> 's" where
  "rv_visit hook context ast s =
     (case hook of
        Some h \<Rightarrow>
          (case h ast context s of
             (r, s1) \<Rightarrow> if truthy r then (r, s1) else rv_dispatch hook context ast s1)
      | None \<Rightarrow> rv_dispatch hook context ast s)"
| "rv_dispatch hook context (Element tokens name attrs children ls ss es) s =
     (case rv_forEach hook context attrs [] s of
        (r1, s1) \<Rightarrow>
          (case rv_forEach hook context children [] s1 of
             (r2, s2) \<Rightarrow> (JUndefined, s2)))"
| "rv_dispatch hook context (Expansion tokens sv ty cases ls svs) s =
     (case rv_forEach hook context cases [] s of
        (r1, s1) \<Rightarrow> (JArr r1, s1))"
| "rv_dispatch hook context (Text tokens v ls) s = (JUndefined, s)"
| "rv_dispatch hook context (ExpansionCase tokens v expression ls vs es) s = (JUndefined, s)"
| "rv_dispatch hook context (Attribute tokens name v ls vs) s = (JUndefined, s)"
| "rv_dispatch hook context (Comment tokens v ls) s = (JUndefined, s)"
| "rv_forEach hook context [] result s = (result, s)"
| "rv_forEach hook context (ast # nodes) result s =
     (case rv_visit hook context ast s of
        (astResult, s1) \<Rightarrow>
          rv_forEach hook context nodes
            (if truthy astResult then result @ [astResult] else result) s1)"

text \<open>\<^verbatim>\<open>RecursiveVisitor\<close> (with the hook of a subclass) as a visitor object.\<close>

definition RecursiveVisitor ::
  "(Node \<Rightarrow> JsValue \<Rightarrow> 's \<Rightarrow> JsValue \<times> 's) option \<Rightarrow> 's Visitor" where
  "RecursiveVisitor hook =
     \<lparr>visit = hook,
      visitElement = (\<lambda>ast context s. rv_dispatch hook context ast s),
      visitAttribute = (\<lambda>ast context s. (JUndefined, s)),
      visitText = (\<lambda>ast context s. (JUndefined, s)),
      visitComment = (\<lambda>ast context s. (JUndefined, s)),
      visitExpansion = (\<lambda>ast context s. rv_dispatch hook context ast s),
      visitExpansionCase = (\<lambda>ast context s. (JUndefined, s))\<rparr>"

text \<open>
  Modelled from the spec: \<^verbatim>\<open>AstPath\<close> (\<^verbatim>\<open>ast_path.ts\<close> is missing): the ordered chain of
  nodes plus the queried position.
\<close>

record AstPath =
  path :: "Node list"
  position :: int

text \<open>
  The \<^verbatim>\<open>visit\<close> member of the anonymous subclass in \<^verbatim>\<open>findNode\<close>. The state is the captured
  array \<^verbatim>\<open>path\<close>. Falling off the end of the \<^verbatim>\<open>if\<close> branch returns \<^verbatim>\<open>undefined\<close>.
\<close>

definition findNode_visit :: "int \<Rightarrow> Node \<Rightarrow> JsValue \<Rightarrow> Node list \<Rightarrow> JsValue \<times> Node list" where
  "findNode_visit pos ast context pth =
     (let span = spanOf ast
      in if range_start span \<le> pos \<and> pos < range_end span
         then (JUndefined, pth @ [ast])
         else (JBool True, pth))"

definition findNode :: "Node list \<Rightarrow> int \<Rightarrow> AstPath" where
  "findNode nodes pos =
     (case rv_forEach (Some (findNode_visit pos)) JNull nodes [] [] of
        (results, pth) \<Rightarrow> \<lparr>path = pth, position = pos\<rparr>)"

text \<open>
  The raw tree of \<^verbatim>\<open><div><span>{{x}}</span></div>\<close>: \<^verbatim>\<open><div>\<close> is at 0..5, \<^verbatim>\<open><span>\<close> at
  5..11, the text \<^verbatim>\<open>{{x}}\<close> at 11..16, \<^verbatim>\<open></span>\<close> at 16..23 and \<^verbatim>\<open></div>\<close> at 23..29. The raw
  tree has no interpolation kind: \<^verbatim>\<open>{{x}}\<close> is a \<^verbatim>\<open>Text\<close> node. Token lists play no part in
  the lookup and are left empty.
\<close>

definition scenario_text :: Node where
  "scenario_text = Text [] ''{{x}}'' \<lparr>startOffset = 11, endOffset = 16\<rparr>"

definition scenario_span :: Node where
  "scenario_span =
     Element [] ''span'' [] [scenario_text] \<lparr>startOffset = 5, endOffset = 23\<rparr>
       (Some \<lparr>startOffset = 5, endOffset = 11\<rparr>) (Some \<lparr>startOffset = 16, endOffset = 23\<rparr>)"

definition scenario_div :: Node where
  "scenario_div =
     Element [] ''div'' [] [scenario_span] \<lparr>startOffset = 0, endOffset = 29\<rparr>
       (Some \<lparr>startOffset = 0, endOffset = 5\<rparr>) (Some \<lparr>startOffset = 23, endOffset = 29\<rparr>)"

section \<open>Mutable node tree (template-nodes.ts)\<close>

subsection \<open>Spans over the shared text buffer, the owning Template\<close>

text \<open>\<^verbatim>\<open>throw new Error(message)\<close>.\<close>

datatype Error = Error string

text \<open>
  Modelled from the spec: the operations of \<^verbatim>\<open>LocationSpan\<close> used by \<^verbatim>\<open>template-nodes.ts\<close>
  (\<^verbatim>\<open>location.ts\<close> is missing): the length, the directional shift by a signed delta
  (\<^verbatim>\<open>moveBy\<close>), the current rendered text, and the in-place text replacement that changes
  the span's own length (\<^verbatim>\<open>replaceText\<close>), which rewrites the shared buffer between the
  span's offsets and sets the span's end to its start plus the new text's length.
  Strings are lists of characters; \<open>length\<close> stands for JavaScript's \<^verbatim>\<open>.length\<close>.
\<close>

definition getLength :: "LocationSpan \<Rightarrow> int" where
  "getLength sp = endOffset sp - startOffset sp"

definition moveBy :: "int \<Rightarrow> LocationSpan \<Rightarrow> LocationSpan" where
  "moveBy delta sp = \<lparr>startOffset = startOffset sp + delta, endOffset = endOffset sp + delta\<rparr>"

definition getText :: "string \<Rightarrow> LocationSpan \<Rightarrow> string" where
  "getText buffer sp =
     take (nat (endOffset sp) - nat (startOffset sp)) (drop (nat (startOffset sp)) buffer)"

definition replaceText :: "string \<Rightarrow> LocationSpan \<Rightarrow> string \<Rightarrow> string \<times> LocationSpan" where
  "replaceText buffer sp newText =
     (take (nat (startOffset sp)) buffer @ newText @ drop (nat (endOffset sp)) buffer,
      \<lparr>startOffset = startOffset sp, endOffset = startOffset sp + int (length newText)\<rparr>)"

text \<open>
  Objects have identity. A \<^verbatim>\<open>TemplateNode\<close> is named by its address in the heap; a token is
  named by its index in the Template's ordered token sequence, which is its identity in
  document order.
\<close>

type_synonym ref = nat

type_synonym tokenRef = nat

text \<open>
  Modelled from the spec: \<^verbatim>\<open>Template\<close>, the owning Document (\<^verbatim>\<open>template.ts\<close> is missing): it
  owns the text buffer, the full ordered token sequence and the top-level node list
  (\<^verbatim>\<open>getRoots()\<close>).
\<close>

record Template =
  fileText :: string
  templateTokens :: "Token list"
  roots :: "ref list"

text \<open>
  Modelled from the spec: \<^verbatim>\<open>Template._forEachTokenAfter(token, fn, { inclusive })\<close>: \<^verbatim>\<open>fn\<close> is
  invoked on every token strictly after the given token in document order, or at and
  after it when \<^verbatim>\<open>inclusive\<close> is set. \<^verbatim>\<open>fn\<close> mutates the token it receives, so it is a
  function from the token to the mutated token.
\<close>

definition forEachTokenAfter ::
  "Template \<Rightarrow> tokenRef \<Rightarrow> (Token \<Rightarrow> Token) \<Rightarrow> bool \<Rightarrow> Template" where
  "forEachTokenAfter t token fn inclusive =
     (let from = (if inclusive then token else token + 1)
      in t\<lparr>templateTokens :=
             take from (templateTokens t) @ map fn (drop from (templateTokens t))\<rparr>)"

subsection \<open>TemplateNode and its subclasses\<close>

text \<open>
  The fields that \<^verbatim>\<open>ElementLikeTemplateNode\<close> adds: the constructor parameters
  \<^verbatim>\<open>allAttributes\<close> and \<^verbatim>\<open>children\<close>, and the five buckets.
\<close>

record ElementLike =
  allAttributes :: "ref list"
  children :: "ref list"
  textAttributes :: "ref list"
  boundAttributes :: "ref list"
  boundEvents :: "ref list"
  bananaInTheBoxes :: "ref list"
  references :: "ref list"

text \<open>The concrete classes, each with the fields its constructor adds.\<close>

datatype NodeClass =
    TextTemplateNode string
  | InterpolationTemplateNode string
  | ElementTemplateNode string ElementLike
  | NgTemplateTemplateNode ElementLike
  | NgContainerTemplateNode ElementLike
  | TextAttributeTemplateNode string string
  | BoundAttributeTemplateNode string string
  | BoundEventTemplateNode string string
  | BananaInTheBoxTemplateNode string string
  | ReferenceTemplateNode string string
  | CommentTemplateNode "string option"
  | PropertyBindingTargetTemplateNode string string
  | EventBindingTargetTemplateNode string string
  | ExpressionTemplateNode
  | StatementTemplateNode

text \<open>
  A \<^verbatim>\<open>TemplateNode\<close> object: the private fields \<^verbatim>\<open>parentTemplateNode\<close> (optional, unset by
  the constructor) and \<^verbatim>\<open>tokens\<close>, and the fields of its class. The field \<^verbatim>\<open>template\<close> is
  the one Template of the store below; \<^verbatim>\<open>project\<close> and \<^verbatim>\<open>locationSpan\<close> of the base class
  \<^verbatim>\<open>NgAstNode\<close> are not used by the operations modelled here.
\<close>

record TemplateNode =
  parentTemplateNode :: "ref option"
  nodeTokens :: "tokenRef list"
  nodeClass :: NodeClass

record Store =
  template :: Template
  heap :: "ref \<Rightarrow> TemplateNode"

text \<open>\<^verbatim>\<open>getTemplateChildren()\<close>: \<^verbatim>\<open>this.children\<close> for the element-like classes, \<^verbatim>\<open>[]\<close> for all others.\<close>

fun classChildren :: "NodeClass \<Rightarrow> ref list" where
  "classChildren (ElementTemplateNode tagName el) = children el"
| "classChildren (NgTemplateTemplateNode el) = children el"
| "classChildren (NgContainerTemplateNode el) = children el"
| "classChildren c = []"

definition getTemplateChildren :: "Store \<Rightarrow> ref \<Rightarrow> ref list" where
  "getTemplateChildren st this = classChildren (nodeClass (heap st this))"

definition setTemplateParent :: "Store \<Rightarrow> ref \<Rightarrow> ref \<Rightarrow> Store" where
  "setTemplateParent st this templateParent =
     st\<lparr>heap := (heap st)(this := (heap st this)\<lparr>parentTemplateNode := Some templateParent\<rparr>)\<rparr>"

definition getTemplateParent :: "Store \<Rightarrow> ref \<Rightarrow> ref option" where
  "getTemplateParent st this = parentTemplateNode (heap st this)"

subsection \<open>getNextTemplateSibling\<close>

text \<open>\<^verbatim>\<open>Array.prototype.findIndex\<close>: the first index whose element satisfies the predicate, or -1.\<close>

fun findIndex :: "('a \<Rightarrow> bool) \<Rightarrow> 'a list \<Rightarrow> int" where
  "findIndex p [] = -1"
| "findIndex p (x # xs) =
     (if p x then 0 else (let i = findIndex p xs in if i = -1 then -1 else i + 1))"

text \<open>\<^verbatim>\<open>array[i]\<close>: \<^verbatim>\<open>undefined\<close> (here \<open>None\<close>) outside the array.\<close>

definition at :: "'a list \<Rightarrow> int \<Rightarrow> 'a option" where
  "at xs i = (if 0 \<le> i \<and> i < int (length xs) then Some (xs ! nat i) else None)"

definition getNextTemplateSibling :: "Store \<Rightarrow> ref \<Rightarrow> Error + ref option" where
  "getNextTemplateSibling st this =
     (case getTemplateParent st this of
        Some parent \<Rightarrow>
          (let cs = getTemplateChildren st parent;
               index = findIndex (\<lambda>child. child = this) cs
           in if index = -1
              then Inl (Error ''Expected to have found self in parent's children.'')
              else Inr (at cs (index + 1)))
      | None \<Rightarrow>
          (let cs = roots (template st);
               index = findIndex (\<lambda>child. child = this) cs
           in if index = -1
              then Inl (Error ''Expected to have found self (root) in template's roots.'')
              else Inr (at cs (index + 1))))"

subsection \<open>getDescendants, getDescendant\<close>

text \<open>
  The two \<^verbatim>\<open>while (queue.length > 0)\<close> loops. A heap in which a node is its own descendant
  keeps the queue non-empty forever, so the loops take fuel: one unit per iteration, and
  \<open>None\<close> when it runs out. The optional parameter \<^verbatim>\<open>predicate\<close> is an option; the test is
  \<^verbatim>\<open>predicate != null && predicate(node)\<close>.
\<close>

definition predicateHolds :: "(ref \<Rightarrow> bool) option \<Rightarrow> ref \<Rightarrow> bool" where
  "predicateHolds predicate node = (case predicate of None \<Rightarrow> False | Some p \<Rightarrow> p node)"

fun getDescendants_while ::
  "nat \<Rightarrow> Store \<Rightarrow> (ref \<Rightarrow> bool) option \<Rightarrow> ref list \<Rightarrow> ref list \<Rightarrow> ref list option" where
  "getDescendants_while fuel st predicate [] result = Some result"
| "getDescendants_while 0 st predicate (node # queue) result = None"
| "getDescendants_while (Suc fuel) st predicate (node # queue) result =
     getDescendants_while fuel st predicate (queue @ getTemplateChildren st node)
       (if predicateHolds predicate node then result @ [node] else result)"

definition getDescendants :: "nat \<Rightarrow> Store \<Rightarrow> ref \<Rightarrow> (ref \<Rightarrow> bool) option \<Rightarrow> ref list option" where
  "getDescendants fuel st this predicate =
     getDescendants_while fuel st predicate (getTemplateChildren st this) []"

text \<open>The inner option of the result is \<^verbatim>\<open>TemplateNode | undefined\<close>.\<close>

fun getDescendant_while ::
  "nat \<Rightarrow> Store \<Rightarrow> (ref \<Rightarrow> bool) option \<Rightarrow> ref list \<Rightarrow> ref option option" where
  "getDescendant_while fuel st predicate [] = Some None"
| "getDescendant_while 0 st predicate (node # queue) = None"
| "getDescendant_while (Suc fuel) st predicate (node # queue) =
     (if predicateHolds predicate node then Some (Some node)
      else getDescendant_while fuel st predicate (queue @ getTemplateChildren st node))"

definition getDescendant :: "nat \<Rightarrow> Store \<Rightarrow> ref \<Rightarrow> (ref \<Rightarrow> bool) option \<Rightarrow> ref option option" where
  "getDescendant fuel st this predicate =
     getDescendant_while fuel st predicate (getTemplateChildren st this)"

subsection \<open>The mutation protocol\<close>

text \<open>
  One iteration of the \<^verbatim>\<open>for\<close> loop of \<^verbatim>\<open>_replaceTextByTokens\<close>: \<^verbatim>\<open>diff\<close> is computed from the
  span's length before the replacement, the token's span text is replaced, then every
  token after it (\<^verbatim>\<open>inclusive: false\<close>) is moved by \<^verbatim>\<open>diff\<close>.
\<close>

definition replaceDiff :: "Template \<Rightarrow> tokenRef \<Rightarrow> string \<Rightarrow> int" where
  "replaceDiff t token newText =
     int (length newText) - getLength (tokenSpan (templateTokens t ! token))"

definition replaceTextByToken :: "Template \<Rightarrow> tokenRef \<Rightarrow> string \<Rightarrow> Template" where
  "replaceTextByToken t token newText =
     (let tok = templateTokens t ! token;
          diff = replaceDiff t token newText
      in case replaceText (fileText t) (tokenSpan tok) newText of
           (buffer, sp) \<Rightarrow>
             forEachTokenAfter
               (t\<lparr>fileText := buffer,
                   templateTokens := (templateTokens t)[token := tok\<lparr>tokenSpan := sp\<rparr>]\<rparr>)
               token (\<lambda>tk. tk\<lparr>tokenSpan := moveBy diff (tokenSpan tk)\<rparr>) False)"

text \<open>
  \<^verbatim>\<open>_replaceTextByTokens\<close>: the pairs in the given order, each completed before the next. A
  token reference that names no token of the Template is outside the data model (a node's
  tokens are tokens of its Template); the model stops there with an error.
\<close>

fun replaceTextByTokens :: "Template \<Rightarrow> (tokenRef \<times> string) list \<Rightarrow> Error + Template" where
  "replaceTextByTokens t [] = Inr t"
| "replaceTextByTokens t ((token, newText) # textReplaceConfigs) =
     (if token < length (templateTokens t)
      then replaceTextByTokens (replaceTextByToken t token newText) textReplaceConfigs
      else Inl (Error ''token is not a token of the template''))"

subsection \<open>Token lookup\<close>

text \<open>
  Modelled from the spec: \<^verbatim>\<open>throwIfUndefined\<close> (\<^verbatim>\<open>utils.ts\<close> is missing): a required token type
  missing from a node's token set is a fatal error. \<^verbatim>\<open>getFirstTokenOfType\<close> is
  \<^verbatim>\<open>this.tokens.find(token => token.type == type)\<close>, and \<^verbatim>\<open>getFirstTokenOfTypeOrThrow\<close> passes
  its result to \<^verbatim>\<open>throwIfUndefined\<close>.
\<close>

definition hasType :: "Template \<Rightarrow> TokenType \<Rightarrow> tokenRef \<Rightarrow> bool" where
  "hasType t ty token =
     (token < length (templateTokens t) \<and> tokenType (templateTokens t ! token) = ty)"

definition getFirstTokenOfType :: "Store \<Rightarrow> ref \<Rightarrow> TokenType \<Rightarrow> tokenRef option" where
  "getFirstTokenOfType st this ty = find (hasType (template st) ty) (nodeTokens (heap st this))"

definition getFirstTokenOfTypeOrThrow :: "Store \<Rightarrow> ref \<Rightarrow> TokenType \<Rightarrow> Error + tokenRef" where
  "getFirstTokenOfTypeOrThrow st this ty =
     (case getFirstTokenOfType st this ty of
        None \<Rightarrow> Inl (Error ''Expected to find the token type among tokens.'')
      | Some token \<Rightarrow> Inr token)"

subsection \<open>InterpolationTemplateNode\<close>

text \<open>
  Modelled from the spec: \<^verbatim>\<open>Token.toString()\<close> (\<^verbatim>\<open>lexer.ts\<close> is missing) is the token's current
  rendered text, the text of its span.
\<close>

definition Token_toString :: "Template \<Rightarrow> tokenRef \<Rightarrow> string" where
  "Token_toString t token = getText (fileText t) (tokenSpan (templateTokens t ! token))"

text \<open>
  \<^verbatim>\<open>String.prototype.trim\<close> removes white space and line terminators from both ends. Of the
  characters a \<open>char\<close> can hold these are tab, line feed, vertical tab, form feed, carriage
  return, space and the no-break space.
\<close>

definition isWhiteSpace :: "char \<Rightarrow> bool" where
  "isWhiteSpace c = (of_char c \<in> {9, 10, 11, 12, 13, 32, 160 :: nat})"

definition trim :: "string \<Rightarrow> string" where
  "trim s = rev (dropWhile isWhiteSpace (rev (dropWhile isWhiteSpace s)))"

definition getTextToken :: "Store \<Rightarrow> ref \<Rightarrow> Error + tokenRef" where
  "getTextToken st this = getFirstTokenOfTypeOrThrow st this TEXT"

definition Interpolation_getText :: "Store \<Rightarrow> ref \<Rightarrow> Error + string" where
  "Interpolation_getText st this =
     (case getTextToken st this of
        Inl e \<Rightarrow> Inl e
      | Inr token \<Rightarrow> Inr (Token_toString (template st) token))"

definition changeText :: "Store \<Rightarrow> ref \<Rightarrow> string \<Rightarrow> Error + Store" where
  "changeText st this newText =
     (case getTextToken st this of
        Inl e \<Rightarrow> Inl e
      | Inr token \<Rightarrow>
          (case replaceTextByTokens (template st) [(token, newText)] of
             Inl e \<Rightarrow> Inl e
           | Inr t \<Rightarrow> Inr (st\<lparr>template := t\<rparr>)))"

definition trimText :: "Store \<Rightarrow> ref \<Rightarrow> Error + Store" where
  "trimText st this =
     (case Interpolation_getText st this of
        Inl e \<Rightarrow> Inl e
      | Inr text \<Rightarrow> changeText st this (trim text))"

subsection \<open>ElementLikeTemplateNode\<close>

text \<open>
  The five type guards come from \<^verbatim>\<open>template-nodes-type-guards.ts\<close>, which is missing; the
  constructor takes them as a parameter.
\<close>

record TypeGuards =
  isTextAttribute :: "ref \<Rightarrow> bool"
  isBoundAttribute :: "ref \<Rightarrow> bool"
  isBoundEvent :: "ref \<Rightarrow> bool"
  isBananaInTheBox :: "ref \<Rightarrow> bool"
  isReference :: "ref \<Rightarrow> bool"

text \<open>
  Modelled from the spec: the guards as class tests on the heap (``exhaustive type-guard
  classification'' into text attribute, bound property, bound event, two-way binding and
  template reference).
\<close>

definition classGuards :: "(ref \<Rightarrow> TemplateNode) \<Rightarrow> TypeGuards" where
  "classGuards h =
     \<lparr>isTextAttribute =
        (\<lambda>a. case nodeClass (h a) of TextAttributeTemplateNode n v \<Rightarrow> True | _ \<Rightarrow> False),
      isBoundAttribute =
        (\<lambda>a. case nodeClass (h a) of BoundAttributeTemplateNode n v \<Rightarrow> True | _ \<Rightarrow> False),
      isBoundEvent =
        (\<lambda>a. case nodeClass (h a) of BoundEventTemplateNode n v \<Rightarrow> True | _ \<Rightarrow> False),
      isBananaInTheBox =
        (\<lambda>a. case nodeClass (h a) of BananaInTheBoxTemplateNode n v \<Rightarrow> True | _ \<Rightarrow> False),
      isReference =
        (\<lambda>a. case nodeClass (h a) of ReferenceTemplateNode n v \<Rightarrow> True | _ \<Rightarrow> False)\<rparr>"

text \<open>
  The \<^verbatim>\<open>for\<close> loop of the constructor over \<^verbatim>\<open>allAttributes\<close>: the first guard that holds
  decides the bucket the attribute is pushed on; when none holds the constructor throws.
\<close>

fun classifyAttributes :: "TypeGuards \<Rightarrow> ref list \<Rightarrow> ElementLike \<Rightarrow> Error + ElementLike" where
  "classifyAttributes g [] el = Inr el"
| "classifyAttributes g (attribute # rest) el =
     (if isTextAttribute g attribute
      then classifyAttributes g rest (el\<lparr>textAttributes := textAttributes el @ [attribute]\<rparr>)
      else if isBoundAttribute g attribute
      then classifyAttributes g rest (el\<lparr>boundAttributes := boundAttributes el @ [attribute]\<rparr>)
      else if isBoundEvent g attribute
      then classifyAttributes g rest (el\<lparr>boundEvents := boundEvents el @ [attribute]\<rparr>)
      else if isBananaInTheBox g attribute
      then classifyAttributes g rest (el\<lparr>bananaInTheBoxes := bananaInTheBoxes el @ [attribute]\<rparr>)
      else if isReference g attribute
      then classifyAttributes g rest (el\<lparr>references := references el @ [attribute]\<rparr>)
      else Inl (Error ''Unexpected type of attribute.''))"

text \<open>The constructor: the five buckets start empty (the field initialisers).\<close>

definition ElementLikeTemplateNode_constructor ::
  "TypeGuards \<Rightarrow> ref list \<Rightarrow> ref list \<Rightarrow> Error + ElementLike" where
  "ElementLikeTemplateNode_constructor g attrs cs =
     classifyAttributes g attrs
       \<lparr>allAttributes = attrs, children = cs, textAttributes = [], boundAttributes = [],
        boundEvents = [], bananaInTheBoxes = [], references = []\<rparr>"

text \<open>That no guard holds for an attribute.\<close>

definition unclassified :: "TypeGuards \<Rightarrow> ref \<Rightarrow> bool" where
  "unclassified g a =
     (\<not> isTextAttribute g a \<and> \<not> isBoundAttribute g a \<and> \<not> isBoundEvent g a
      \<and> \<not> isBananaInTheBox g a \<and> \<not> isReference g a)"

subsection \<open>ElementTemplateNode.changeTagName\<close>

definition getTagOpenStartToken :: "Store \<Rightarrow> ref \<Rightarrow> Error + tokenRef" where
  "getTagOpenStartToken st this = getFirstTokenOfTypeOrThrow st this TAG_OPEN_START"

definition getTagEndToken :: "Store \<Rightarrow> ref \<Rightarrow> Error + tokenRef" where
  "getTagEndToken st this = getFirstTokenOfTypeOrThrow st this TAG_CLOSE"

text \<open>
  Both tokens are looked up while the array literal is built, before
  \<^verbatim>\<open>_replaceTextByTokens\<close> runs.
\<close>

definition changeTagName :: "Store \<Rightarrow> ref \<Rightarrow> string \<Rightarrow> Error + Store" where
  "changeTagName st this newTagName =
     (case getTagOpenStartToken st this of
        Inl e \<Rightarrow> Inl e
      | Inr openToken \<Rightarrow>
          (case getTagEndToken st this of
             Inl e \<Rightarrow> Inl e
           | Inr closeToken \<Rightarrow>
               (case replaceTextByTokens (template st)
                       [(openToken, ''<'' @ newTagName), (closeToken, ''</'' @ newTagName @ ''>'')] of
                  Inl e \<Rightarrow> Inl e
                | Inr t \<Rightarrow> Inr (st\<lparr>template := t\<rparr>))))"

subsection \<open>Auxiliary notions for the statements\<close>

text \<open>
  The number of the first guard of the constructor's \<^verbatim>\<open>if\<close> chain that holds for an
  attribute, 0 when none holds.
\<close>

definition bucketOf :: "TypeGuards \<Rightarrow> ref \<Rightarrow> nat" where
  "bucketOf g a =
     (if isTextAttribute g a then 1 else if isBoundAttribute g a then 2
      else if isBoundEvent g a then 3 else if isBananaInTheBox g a then 4
      else if isReference g a then 5 else 0)"

text \<open>
  A token's span lies within the text buffer. The lexer produces such spans; the
  mutation protocol relies on it when it takes a span's length for the length of its text.
\<close>

definition spanInBuffer :: "Template \<Rightarrow> tokenRef \<Rightarrow> bool" where
  "spanInBuffer t token =
     (0 \<le> startOffset (tokenSpan (templateTokens t ! token))
      \<and> startOffset (tokenSpan (templateTokens t ! token))
          \<le> endOffset (tokenSpan (templateTokens t ! token))
      \<and> endOffset (tokenSpan (templateTokens t ! token)) \<le> int (length (fileText t)))"

section \<open>Example documents\<close>

definition noAttributes :: "ref list \<Rightarrow> ElementLike" where
  "noAttributes cs =
     \<lparr>allAttributes = [], children = cs, textAttributes = [], boundAttributes = [],
      boundEvents = [], bananaInTheBoxes = [], references = []\<rparr>"

definition unusedNode :: TemplateNode where
  "unusedNode = \<lparr>parentTemplateNode = None, nodeTokens = [], nodeClass = StatementTemplateNode\<rparr>"

text \<open>
  The source \<^verbatim>\<open><p>{{x}}<b></b></p>\<close>: the element \<^verbatim>\<open>p\<close> (node 0, the only root) has the
  children \<^verbatim>\<open>{{x}}\<close> (node 1, an interpolation) and \<^verbatim>\<open>b\<close> (node 2, an element without children).
\<close>

definition example_template :: Template where
  "example_template =
     \<lparr>fileText = ''<p>{{x}}<b></b></p>'',
      templateTokens =
        [\<lparr>tokenType = TAG_OPEN_START, tokenSpan = \<lparr>startOffset = 0, endOffset = 2\<rparr>\<rparr>,
         \<lparr>tokenType = TAG_OPEN_END, tokenSpan = \<lparr>startOffset = 2, endOffset = 3\<rparr>\<rparr>,
         \<lparr>tokenType = TEXT, tokenSpan = \<lparr>startOffset = 3, endOffset = 8\<rparr>\<rparr>,
         \<lparr>tokenType = TAG_OPEN_START, tokenSpan = \<lparr>startOffset = 8, endOffset = 10\<rparr>\<rparr>,
         \<lparr>tokenType = TAG_OPEN_END, tokenSpan = \<lparr>startOffset = 10, endOffset = 11\<rparr>\<rparr>,
         \<lparr>tokenType = TAG_CLOSE, tokenSpan = \<lparr>startOffset = 11, endOffset = 15\<rparr>\<rparr>,
         \<lparr>tokenType = TAG_CLOSE, tokenSpan = \<lparr>startOffset = 15, endOffset = 19\<rparr>\<rparr>,
         \<lparr>tokenType = EOF, tokenSpan = \<lparr>startOffset = 19, endOffset = 19\<rparr>\<rparr>],
      roots = [0]\<rparr>"

definition example_store :: Store where
  "example_store =
     \<lparr>template = example_template,
      heap = (\<lambda>r. unusedNode)
        (0 := \<lparr>parentTemplateNode = None, nodeTokens = [0, 1, 6],
               nodeClass = ElementTemplateNode ''p'' (noAttributes [1, 2])\<rparr>,
         1 := \<lparr>parentTemplateNode = Some 0, nodeTokens = [2],
               nodeClass = InterpolationTemplateNode ''{{x}}''\<rparr>,
         2 := \<lparr>parentTemplateNode = Some 0, nodeTokens = [3, 4, 5],
               nodeClass = ElementTemplateNode ''b'' (noAttributes [])\<rparr>)\<rparr>"

text \<open>
  The source \<^verbatim>\<open><div></div>\<close> as one element node (node 0) with the tokens \<^verbatim>\<open><div\<close>, \<^verbatim>\<open>>\<close> and
  \<^verbatim>\<open></div>\<close>, followed by any further text \<open>rest\<close> and any further tokens \<open>later\<close>.
\<close>

definition div_template :: "string \<Rightarrow> Token list \<Rightarrow> Template" where
  "div_template rest later =
     \<lparr>fileText = ''<div></div>'' @ rest,
      templateTokens =
        [\<lparr>tokenType = TAG_OPEN_START, tokenSpan = \<lparr>startOffset = 0, endOffset = 4\<rparr>\<rparr>,
         \<lparr>tokenType = TAG_OPEN_END, tokenSpan = \<lparr>startOffset = 4, endOffset = 5\<rparr>\<rparr>,
         \<lparr>tokenType = TAG_CLOSE, tokenSpan = \<lparr>startOffset = 5, endOffset = 11\<rparr>\<rparr>] @ later,
      roots = [0]\<rparr>"

definition div_store :: "string \<Rightarrow> Token list \<Rightarrow> Store" where
  "div_store rest later =
     \<lparr>template = div_template rest later,
      heap = (\<lambda>r. unusedNode)
        (0 := \<lparr>parentTemplateNode = None, nodeTokens = [0, 1, 2],
               nodeClass = ElementTemplateNode ''div'' (noAttributes [])\<rparr>)\<rparr>"

text \<open>The document that \<^verbatim>\<open>changeTagName("span")\<close> is to leave behind.\<close>

definition span_template :: "string \<Rightarrow> Token list \<Rightarrow> Template" where
  "span_template rest later =
     \<lparr>fileText = ''<span></span>'' @ rest,
      templateTokens =
        [\<lparr>tokenType = TAG_OPEN_START, tokenSpan = \<lparr>startOffset = 0, endOffset = 5\<rparr>\<rparr>,
         \<lparr>tokenType = TAG_OPEN_END, tokenSpan = \<lparr>startOffset = 5, endOffset = 6\<rparr>\<rparr>,
         \<lparr>tokenType = TAG_CLOSE, tokenSpan = \<lparr>startOffset = 6, endOffset = 13\<rparr>\<rparr>]
        @ map (\<lambda>tk. tk\<lparr>tokenSpan :=
                 \<lparr>startOffset = startOffset (tokenSpan tk) + 2,
                  endOffset = endOffset (tokenSpan tk) + 2\<rparr>\<rparr>) later,
      roots = [0]\<rparr>"

text \<open>
  Three attribute objects for \<^verbatim>\<open><input [(ngModel)]="name" type="text" #box>\<close>; address 13 holds a
  node that is no attribute.
\<close>

definition example_attrs :: "ref \<Rightarrow> TemplateNode" where
  "example_attrs =
     (\<lambda>r. unusedNode)
       (10 := \<lparr>parentTemplateNode = None, nodeTokens = [],
               nodeClass = BananaInTheBoxTemplateNode ''ngModel'' ''name''\<rparr>,
        11 := \<lparr>parentTemplateNode = None, nodeTokens = [],
               nodeClass = TextAttributeTemplateNode ''type'' ''text''\<rparr>,
        12 := \<lparr>parentTemplateNode = None, nodeTokens = [],
               nodeClass = ReferenceTemplateNode ''#box'' ''''\<rparr>)"

section \<open>Properties of the raw parse tree\<close>

subsection \<open>RecursiveVisitor is a visitor in the sense of visitAll\<close>

text \<open>
  The recursion \<open>rv_forEach\<close> is \<^verbatim>\<open>visitAll\<close> run with the visitor object \<open>RecursiveVisitor\<close>,
  so \<open>findNode\<close> is a run of \<^verbatim>\<open>visitAll\<close> over the top-level nodes.
\<close>

lemma Node_visit_RecursiveVisitor:
  "Node_visit ast (RecursiveVisitor hook) context s = rv_dispatch hook context ast s"
  by (cases ast) (simp_all add: RecursiveVisitor_def)

lemma visitAll_visit_RecursiveVisitor:
  "visitAll_visit (RecursiveVisitor hook) context ast s = rv_visit hook context ast s"
proof -
  have v: "visit (RecursiveVisitor hook) = hook" by (simp add: RecursiveVisitor_def)
  show ?thesis
    by (simp add: visitAll_visit_def v Node_visit_RecursiveVisitor
          split: option.splits prod.splits)
qed

lemma rv_forEach_visitAll:
  "rv_forEach hook context nodes result s = visitAll_forEach (RecursiveVisitor hook) context nodes result s"
proof (induction nodes arbitrary: result s)
  case Nil
  show ?case by simp
next
  case (Cons ast nodes)
  show ?case
    by (simp add: visitAll_visit_RecursiveVisitor Cons.IH split: prod.splits del: rv_visit.simps)
qed

lemma findNode_visitAll:
  "findNode nodes pos =
     \<lparr>path = snd (visitAll (RecursiveVisitor (Some (findNode_visit pos))) nodes JNull []), position = pos\<rparr>"
  by (simp add: findNode_def visitAll_def rv_forEach_visitAll split: prod.splits)

subsection \<open>visitAll\<close>

lemma forEach_acc:
  "visitAll_forEach v c nodes acc s =
     (acc @ filter truthy (fst (perNodeResults v c nodes s)), snd (perNodeResults v c nodes s))"
  by (induction nodes arbitrary: acc s) (auto split: prod.splits)

text \<open>
  C6. For every visitor and node list, \<^verbatim>\<open>visitAll\<close> returns exactly the truthy per-node
  results in input order (first conjunct). The per-node result is that of the generic
  hook when the visitor has one and its result is truthy, and then the kind-specific
  dispatch is skipped: result and state are the hook's alone (second conjunct). When the
  hook's result is falsy the kind-specific dispatch runs after it (third conjunct), and
  without a hook the dispatch runs alone (fourth conjunct). Falsy per-node results are
  filtered out of the returned list, not kept as placeholders.
\<close>

theorem visitAll_collects_truthy:
  "visitAll visitor nodes context s =
     (filter truthy (fst (perNodeResults visitor context nodes s)),
      snd (perNodeResults visitor context nodes s))
   \<and> (\<forall>ast s0 hook. visit visitor = Some hook \<and> truthy (fst (hook ast context s0)) \<longrightarrow>
         visitAll_visit visitor context ast s0 = hook ast context s0)
   \<and> (\<forall>ast s0 hook. visit visitor = Some hook \<and> \<not> truthy (fst (hook ast context s0)) \<longrightarrow>
         visitAll_visit visitor context ast s0 =
           Node_visit ast visitor context (snd (hook ast context s0)))
   \<and> (\<forall>ast s0. visit visitor = None \<longrightarrow>
         visitAll_visit visitor context ast s0 = Node_visit ast visitor context s0)"
  by (auto simp: visitAll_def forEach_acc visitAll_visit_def split: prod.splits)

theorem visitAll_collects_truthy_witness:
  "visit (RecursiveVisitor (Some (findNode_visit 13))) = Some (findNode_visit 13)
   \<and> truthy (fst (findNode_visit 13 scenario_text JNull []))
   \<and> visitAll_visit (RecursiveVisitor (Some (findNode_visit 13))) JNull scenario_text []
       = (JBool True, [])
   \<and> \<not> truthy (fst (findNode_visit 13 scenario_span JNull []))
   \<and> visitAll_visit (RecursiveVisitor (Some (findNode_visit 13))) JNull scenario_span []
       = (JUndefined, [scenario_span])
   \<and> visitAll (RecursiveVisitor (Some (findNode_visit 13))) [scenario_text, scenario_div] JNull []
       = ([JBool True], [scenario_div, scenario_span])
   \<and> visit (RecursiveVisitor None) = None
   \<and> visitAll_visit (RecursiveVisitor None) JNull scenario_text ([] :: Node list)
       = (JUndefined, [])"
  using visitAll_collects_truthy
    [of "RecursiveVisitor (Some (findNode_visit 13))" "[scenario_text, scenario_div]" JNull "[]"]
    visitAll_collects_truthy [of "RecursiveVisitor None" "[]" JNull "[] :: Node list"]
  by (simp add: visitAll_def visitAll_visit_def RecursiveVisitor_def findNode_visit_def
        scenario_div_def scenario_span_def scenario_text_def)

subsection \<open>spanOf\<close>

lemma spanOf_start: "range_start (spanOf n) = startOffset (locationSpan n)"
  by (cases n) (auto split: option.splits)

text \<open>
  C5. For every raw node, \<^verbatim>\<open>spanOf\<close> returns the node's start offset as start. For an
  Element the end is the start offset of the explicit end-tag span when present,
  otherwise the recursively computed end of its last child when it has children,
  otherwise the node's own start offset. For every other kind the span is zero-width:
  its end is the node's start offset.
\<close>

theorem spanOf_cases:
  "range_start (spanOf n) = startOffset (locationSpan n)
   \<and> range_end (spanOf (Element tks nm ats cs ls ss (Some e))) = startOffset e
   \<and> (cs \<noteq> [] \<longrightarrow>
        range_end (spanOf (Element tks nm ats cs ls ss None)) = range_end (spanOf (last cs)))
   \<and> range_end (spanOf (Element tks nm ats [] ls ss None)) = startOffset ls
   \<and> (\<not> isElement n \<longrightarrow>
        range_end (spanOf n) = startOffset (locationSpan n)
        \<and> range_end (spanOf n) = range_start (spanOf n))"
proof -
  have "range_end (spanOf n) = startOffset (locationSpan n)" if "\<not> isElement n"
    using that by (cases n) simp_all
  then show ?thesis by (simp add: spanOf_start)
qed

theorem spanOf_cases_witness:
  "[scenario_text] \<noteq> []
   \<and> \<not> isElement scenario_text
   \<and> range_end (spanOf (Element [] ''span'' [] [scenario_text] \<lparr>startOffset = 5, endOffset = 23\<rparr> None None)) = 11
   \<and> spanOf scenario_text = \<lparr>range_start = 11, range_end = 11\<rparr>"
  using spanOf_cases [of scenario_text "[]" "''span''" "[]" "[scenario_text]"
      "\<lparr>startOffset = 5, endOffset = 23\<rparr>" None "\<lparr>startOffset = 5, endOffset = 23\<rparr>"]
  by (simp add: scenario_text_def)

subsection \<open>findNode\<close>

text \<open>
  C2. For the raw tree of \<^verbatim>\<open><div><span>{{x}}</span></div>\<close> and a position strictly inside
  \<^verbatim>\<open>{{x}}\<close> (12 to 15), the specification says that \<^verbatim>\<open>findNode\<close> returns the chain of the div
  element, the span element and the text node of the interpolation. The code returns the
  div and the span only: \<^verbatim>\<open>spanOf\<close> gives the text node the zero-width range \<open>[11, 11)\<close>, which
  contains no position, so the hook prunes it.
\<close>

theorem findNode_misses_text:
  "findNode [scenario_div] 12 = \<lparr>path = [scenario_div, scenario_span], position = 12\<rparr>
   \<and> findNode [scenario_div] 13 = \<lparr>path = [scenario_div, scenario_span], position = 13\<rparr>
   \<and> findNode [scenario_div] 14 = \<lparr>path = [scenario_div, scenario_span], position = 14\<rparr>
   \<and> findNode [scenario_div] 15 = \<lparr>path = [scenario_div, scenario_span], position = 15\<rparr>
   \<and> spanOf scenario_text = \<lparr>range_start = 11, range_end = 11\<rparr>"
  by (simp add: findNode_def findNode_visit_def scenario_div_def scenario_span_def
        scenario_text_def)

section \<open>Properties of the mutable node tree\<close>

subsection \<open>Parent link\<close>

text \<open>
  C10. \<^verbatim>\<open>setTemplateParent\<close> is an unconditional assignment: it returns no error (its result
  is the store, not a sum with an error), and after \<^verbatim>\<open>setTemplateParent(p1)\<close> and then
  \<^verbatim>\<open>setTemplateParent(p2)\<close> on the same node, \<^verbatim>\<open>getTemplateParent\<close> returns \<^verbatim>\<open>p2\<close>.
\<close>

theorem setTemplateParent_overwrites:
  "getTemplateParent (setTemplateParent (setTemplateParent st this p1) this p2) this = Some p2"
  by (simp add: getTemplateParent_def setTemplateParent_def)

subsection \<open>Next sibling\<close>

lemma findIndex_ge: "-1 \<le> findIndex p xs"
  by (induction xs) (auto simp: Let_def)

lemma findIndex_nonneg: "findIndex p xs \<noteq> -1 \<Longrightarrow> 0 \<le> findIndex p xs"
  using findIndex_ge [of p xs] by arith

lemma findIndex_none: "findIndex p xs = -1 \<longleftrightarrow> (\<forall>x \<in> set xs. \<not> p x)"
proof (induction xs)
  case Nil
  show ?case by simp
next
  case (Cons x xs)
  have "findIndex p xs + 1 \<noteq> -1" using findIndex_ge [of p xs] by arith
  with Cons.IH show ?case by (auto simp: Let_def)
qed

lemma findIndex_first:
  "findIndex p xs \<noteq> -1 \<Longrightarrow>
     nat (findIndex p xs) < length xs \<and> p (xs ! nat (findIndex p xs))
     \<and> (\<forall>j < nat (findIndex p xs). \<not> p (xs ! j))"
proof (induction xs)
  case Nil
  then show ?case by simp
next
  case (Cons x xs)
  show ?case
  proof (cases "p x")
    case True
    then show ?thesis by simp
  next
    case False
    with Cons.prems have ne: "findIndex p xs \<noteq> -1" by (auto simp: Let_def split: if_splits)
    from findIndex_nonneg [OF ne] have nn: "0 \<le> findIndex p xs" .
    from False ne have eq: "findIndex p (x # xs) = findIndex p xs + 1" by (simp add: Let_def)
    from nn have n: "nat (findIndex p xs + 1) = Suc (nat (findIndex p xs))" by simp
    from Cons.IH [OF ne] False show ?thesis
      unfolding eq n by (auto simp: less_Suc_eq_0_disj)
  qed
qed

lemma sibling_lookup:
  assumes "this \<in> set cs"
  shows "\<exists>i < length cs. cs ! i = this \<and> (\<forall>j < i. cs ! j \<noteq> this)
        \<and> at cs (findIndex (\<lambda>child. child = this) cs + 1) = (if i + 1 < length cs then Some (cs ! (i + 1)) else None)"
proof -
  let ?k = "findIndex (\<lambda>child. child = this) cs"
  from assms have ne: "?k \<noteq> -1" by (simp add: findIndex_none)
  from findIndex_first [OF ne] findIndex_nonneg [OF ne]
  have a: "nat ?k < length cs" "cs ! nat ?k = this" "\<forall>j < nat ?k. cs ! j \<noteq> this" "0 \<le> ?k"
    by auto
  have "at cs (?k + 1) = (if nat ?k + 1 < length cs then Some (cs ! (nat ?k + 1)) else None)"
    using a(4) by (auto simp: at_def nat_add_distrib)
  with a show ?thesis by blast
qed

text \<open>
  C9. If the node has a parent, \<^verbatim>\<open>getNextTemplateSibling\<close> locates the node by identity in the
  parent's children (at its first occurrence \<open>i\<close>) and returns the element after it,
  \<^verbatim>\<open>undefined\<close> when the node is last. If it has no parent, the same lookup runs against
  the Template's roots. When the node is not found in the searched list, the operation
  throws an error instead of returning \<^verbatim>\<open>undefined\<close>.
\<close>

theorem getNextTemplateSibling_spec:
  "(getTemplateParent st this = Some parent \<and> this \<in> set (getTemplateChildren st parent) \<longrightarrow>
      (\<exists>i < length (getTemplateChildren st parent).
          getTemplateChildren st parent ! i = this
          \<and> (\<forall>j < i. getTemplateChildren st parent ! j \<noteq> this)
          \<and> getNextTemplateSibling st this =
              Inr (if i + 1 < length (getTemplateChildren st parent)
                   then Some (getTemplateChildren st parent ! (i + 1)) else None)))
   \<and> (getTemplateParent st this = Some parent \<and> this \<notin> set (getTemplateChildren st parent) \<longrightarrow>
      getNextTemplateSibling st this = Inl (Error ''Expected to have found self in parent's children.''))
   \<and> (getTemplateParent st this = None \<and> this \<in> set (roots (template st)) \<longrightarrow>
      (\<exists>i < length (roots (template st)).
          roots (template st) ! i = this
          \<and> (\<forall>j < i. roots (template st) ! j \<noteq> this)
          \<and> getNextTemplateSibling st this =
              Inr (if i + 1 < length (roots (template st))
                   then Some (roots (template st) ! (i + 1)) else None)))
   \<and> (getTemplateParent st this = None \<and> this \<notin> set (roots (template st)) \<longrightarrow>
      getNextTemplateSibling st this = Inl (Error ''Expected to have found self (root) in template's roots.''))"
proof (intro conjI impI)
  assume a: "getTemplateParent st this = Some parent \<and> this \<in> set (getTemplateChildren st parent)"
  then have ne: "findIndex (\<lambda>child. child = this) (getTemplateChildren st parent) \<noteq> -1"
    by (simp add: findIndex_none)
  from a sibling_lookup [of this "getTemplateChildren st parent"] ne
  show "\<exists>i < length (getTemplateChildren st parent).
          getTemplateChildren st parent ! i = this
          \<and> (\<forall>j < i. getTemplateChildren st parent ! j \<noteq> this)
          \<and> getNextTemplateSibling st this =
              Inr (if i + 1 < length (getTemplateChildren st parent)
                   then Some (getTemplateChildren st parent ! (i + 1)) else None)"
    by (simp add: getNextTemplateSibling_def Let_def)
next
  assume "getTemplateParent st this = Some parent \<and> this \<notin> set (getTemplateChildren st parent)"
  then show "getNextTemplateSibling st this = Inl (Error ''Expected to have found self in parent's children.'')"
    by (simp add: getNextTemplateSibling_def Let_def findIndex_none)
next
  assume a: "getTemplateParent st this = None \<and> this \<in> set (roots (template st))"
  then have ne: "findIndex (\<lambda>child. child = this) (roots (template st)) \<noteq> -1"
    by (simp add: findIndex_none)
  from a sibling_lookup [of this "roots (template st)"] ne
  show "\<exists>i < length (roots (template st)).
          roots (template st) ! i = this
          \<and> (\<forall>j < i. roots (template st) ! j \<noteq> this)
          \<and> getNextTemplateSibling st this =
              Inr (if i + 1 < length (roots (template st))
                   then Some (roots (template st) ! (i + 1)) else None)"
    by (simp add: getNextTemplateSibling_def Let_def)
next
  assume "getTemplateParent st this = None \<and> this \<notin> set (roots (template st))"
  then show "getNextTemplateSibling st this = Inl (Error ''Expected to have found self (root) in template's roots.'')"
    by (simp add: getNextTemplateSibling_def Let_def findIndex_none)
qed

theorem getNextTemplateSibling_spec_witness:
  "getTemplateParent example_store 1 = Some 0 \<and> 1 \<in> set (getTemplateChildren example_store 0)
   \<and> getNextTemplateSibling example_store 1 = Inr (Some 2)
   \<and> getNextTemplateSibling example_store 2 = Inr None
   \<and> getTemplateParent (setTemplateParent example_store 7 0) 7 = Some 0
   \<and> 7 \<notin> set (getTemplateChildren (setTemplateParent example_store 7 0) 0)
   \<and> getNextTemplateSibling (setTemplateParent example_store 7 0) 7
       = Inl (Error ''Expected to have found self in parent's children.'')
   \<and> getTemplateParent example_store 0 = None \<and> 0 \<in> set (roots (template example_store))
   \<and> getNextTemplateSibling example_store 0 = Inr None
   \<and> getTemplateParent example_store 7 = None \<and> 7 \<notin> set (roots (template example_store))
   \<and> getNextTemplateSibling example_store 7
       = Inl (Error ''Expected to have found self (root) in template's roots.'')"
  using getNextTemplateSibling_spec [of example_store 1 0]
    getNextTemplateSibling_spec [of example_store 2 0]
    getNextTemplateSibling_spec [of "setTemplateParent example_store 7 0" 7 0]
    getNextTemplateSibling_spec [of example_store 0 0]
    getNextTemplateSibling_spec [of example_store 7 0]
  by (simp add: getNextTemplateSibling_def getTemplateParent_def getTemplateChildren_def
        setTemplateParent_def example_store_def example_template_def noAttributes_def
        unusedNode_def at_def Let_def)

subsection \<open>Descendants\<close>

text \<open>
  Without a predicate the test \<^verbatim>\<open>predicate != null && predicate(node)\<close> fails for every
  node: whenever the loops return, \<^verbatim>\<open>getDescendants\<close> returns the empty list and
  \<^verbatim>\<open>getDescendant\<close> returns \<^verbatim>\<open>undefined\<close>.
\<close>

lemma getDescendants_while_unfiltered:
  "getDescendants_while fuel st None queue result = Some r \<Longrightarrow> r = result"
  by (induction fuel st "None :: (ref \<Rightarrow> bool) option" queue result rule: getDescendants_while.induct)
     (auto simp: predicateHolds_def)

lemma getDescendant_while_unfiltered:
  "getDescendant_while fuel st None queue = Some r \<Longrightarrow> r = None"
  by (induction fuel st "None :: (ref \<Rightarrow> bool) option" queue rule: getDescendant_while.induct)
     (auto simp: predicateHolds_def)

text \<open>
  C1. The specification says that \<^verbatim>\<open>getDescendants()\<close> without a predicate returns all
  descendants and \<^verbatim>\<open>getDescendant()\<close> the first one. The code does not: for every store and
  node, whenever the unfiltered calls return, they return the empty list and \<^verbatim>\<open>undefined\<close>.
  On the element \<^verbatim>\<open>p\<close> of the example, whose children are the nodes 1 and 2, the
  unfiltered calls return \<open>[]\<close> and \<^verbatim>\<open>undefined\<close>, while with the predicate that holds of
  every node they return the descendants \<open>[1, 2]\<close> and the first of them.
\<close>

theorem unfiltered_descendants_empty:
  "(getDescendants fuel st this None = None \<or> getDescendants fuel st this None = Some [])
   \<and> (getDescendant fuel st this None = None \<or> getDescendant fuel st this None = Some None)
   \<and> getTemplateChildren example_store 0 = [1, 2]
   \<and> getDescendants 10 example_store 0 None = Some []
   \<and> getDescendant 10 example_store 0 None = Some None
   \<and> getDescendants 10 example_store 0 (Some (\<lambda>node. True)) = Some [1, 2]
   \<and> getDescendant 10 example_store 0 (Some (\<lambda>node. True)) = Some (Some 1)"
proof -
  have all: "getDescendants fuel st this None = None \<or> getDescendants fuel st this None = Some []"
    unfolding getDescendants_def
    by (cases "getDescendants_while fuel st None (getTemplateChildren st this) []")
       (simp_all add: getDescendants_while_unfiltered)
  have first: "getDescendant fuel st this None = None \<or> getDescendant fuel st this None = Some None"
    unfolding getDescendant_def
    by (cases "getDescendant_while fuel st None (getTemplateChildren st this)")
       (simp_all add: getDescendant_while_unfiltered)
  have ex: "getTemplateChildren example_store 0 = [1, 2]
     \<and> getDescendants 10 example_store 0 None = Some []
     \<and> getDescendant 10 example_store 0 None = Some None
     \<and> getDescendants 10 example_store 0 (Some (\<lambda>node. True)) = Some [1, 2]
     \<and> getDescendant 10 example_store 0 (Some (\<lambda>node. True)) = Some (Some 1)"
    by (simp add: getDescendants_def getDescendant_def getTemplateChildren_def example_store_def
          noAttributes_def unusedNode_def predicateHolds_def eval_nat_numeral)
  from all first ex show ?thesis by blast
qed

subsection \<open>The mutation protocol\<close>

lemma getFirstTokenOfTypeOrThrow_Inr:
  "getFirstTokenOfTypeOrThrow st this ty = Inr token \<Longrightarrow>
     token < length (templateTokens (template st))
     \<and> tokenType (templateTokens (template st) ! token) = ty
     \<and> token \<in> set (nodeTokens (heap st this))"
  by (auto simp: getFirstTokenOfTypeOrThrow_def getFirstTokenOfType_def hasType_def
        find_Some_iff split: option.splits)

lemma replaceTextByToken_length:
  "length (templateTokens (replaceTextByToken t token newText)) = length (templateTokens t)"
  by (simp add: replaceTextByToken_def replaceText_def forEachTokenAfter_def Let_def)

lemma replaceTextByToken_before:
  "j < token \<Longrightarrow> token < length (templateTokens t) \<Longrightarrow>
     templateTokens (replaceTextByToken t token newText) ! j = templateTokens t ! j"
  by (simp add: replaceTextByToken_def replaceText_def forEachTokenAfter_def Let_def nth_append)

lemma replaceTextByToken_self:
  "token < length (templateTokens t) \<Longrightarrow>
     templateTokens (replaceTextByToken t token newText) ! token =
       (templateTokens t ! token)
         \<lparr>tokenSpan := \<lparr>startOffset = startOffset (tokenSpan (templateTokens t ! token)),
                        endOffset = startOffset (tokenSpan (templateTokens t ! token))
                                    + int (length newText)\<rparr>\<rparr>"
  by (simp add: replaceTextByToken_def replaceText_def forEachTokenAfter_def Let_def nth_append)

lemma replaceTextByToken_after:
  "token < j \<Longrightarrow> j < length (templateTokens t) \<Longrightarrow>
     templateTokens (replaceTextByToken t token newText) ! j =
       (templateTokens t ! j)
         \<lparr>tokenSpan := moveBy (replaceDiff t token newText) (tokenSpan (templateTokens t ! j))\<rparr>"
  by (simp add: replaceTextByToken_def replaceText_def forEachTokenAfter_def Let_def nth_append
        replaceDiff_def)

text \<open>
  C3. After \<^verbatim>\<open>_replaceTextByTokens\<close> with the single pair of a token \<open>T\<close> of the Template and
  \<open>newText\<close>, where \<open>T\<close>'s span had length \<open>L0\<close> and \<open>newText\<close> has length \<open>L1\<close>: every token
  strictly after \<open>T\<close> in document order has its start offset increased by exactly
  \<open>L1 - L0\<close> (and keeps its length), \<open>T\<close>'s own span has length \<open>L1\<close> and its start offset
  is unchanged, and the span of every token before \<open>T\<close> is unchanged.
\<close>

theorem replaceTextByTokens_offset_shift:
  assumes "token < length (templateTokens t)"
  shows "\<exists>t'. replaceTextByTokens t [(token, newText)] = Inr t'
     \<and> length (templateTokens t') = length (templateTokens t)
     \<and> (\<forall>j. token < j \<and> j < length (templateTokens t) \<longrightarrow>
          startOffset (tokenSpan (templateTokens t' ! j)) =
            startOffset (tokenSpan (templateTokens t ! j))
            + (int (length newText) - getLength (tokenSpan (templateTokens t ! token)))
          \<and> getLength (tokenSpan (templateTokens t' ! j)) =
              getLength (tokenSpan (templateTokens t ! j)))
     \<and> getLength (tokenSpan (templateTokens t' ! token)) = int (length newText)
     \<and> startOffset (tokenSpan (templateTokens t' ! token)) =
         startOffset (tokenSpan (templateTokens t ! token))
     \<and> (\<forall>j < token. tokenSpan (templateTokens t' ! j) = tokenSpan (templateTokens t ! j))"
proof -
  let ?t' = "replaceTextByToken t token newText"
  have r: "replaceTextByTokens t [(token, newText)] = Inr ?t'" using assms by simp
  have after: "\<forall>j. token < j \<and> j < length (templateTokens t) \<longrightarrow>
          startOffset (tokenSpan (templateTokens ?t' ! j)) =
            startOffset (tokenSpan (templateTokens t ! j))
            + (int (length newText) - getLength (tokenSpan (templateTokens t ! token)))
          \<and> getLength (tokenSpan (templateTokens ?t' ! j)) =
              getLength (tokenSpan (templateTokens t ! j))"
    by (simp add: replaceTextByToken_after moveBy_def replaceDiff_def getLength_def)
  have self: "getLength (tokenSpan (templateTokens ?t' ! token)) = int (length newText)"
     "startOffset (tokenSpan (templateTokens ?t' ! token)) =
         startOffset (tokenSpan (templateTokens t ! token))"
    using assms by (simp_all add: replaceTextByToken_self getLength_def)
  have before: "\<forall>j < token. tokenSpan (templateTokens ?t' ! j) = tokenSpan (templateTokens t ! j)"
    using assms by (simp add: replaceTextByToken_before)
  from r after self before replaceTextByToken_length [of t token newText]
  show ?thesis by blast
qed

theorem replaceTextByTokens_offset_shift_witness:
  "2 < length (templateTokens example_template)
   \<and> (\<exists>t'. replaceTextByTokens example_template [(2, ''{{name}}'')] = Inr t'
         \<and> fileText t' = ''<p>{{name}}<b></b></p>''
         \<and> map tokenSpan (templateTokens t') =
             [\<lparr>startOffset = 0, endOffset = 2\<rparr>, \<lparr>startOffset = 2, endOffset = 3\<rparr>,
              \<lparr>startOffset = 3, endOffset = 11\<rparr>, \<lparr>startOffset = 11, endOffset = 13\<rparr>,
              \<lparr>startOffset = 13, endOffset = 14\<rparr>, \<lparr>startOffset = 14, endOffset = 18\<rparr>,
              \<lparr>startOffset = 18, endOffset = 22\<rparr>, \<lparr>startOffset = 22, endOffset = 22\<rparr>])"
proof -
  have h: "2 < length (templateTokens example_template)" by (simp add: example_template_def)
  from replaceTextByTokens_offset_shift [OF h, of "''{{name}}''"] h show ?thesis
    by (simp add: replaceTextByToken_def replaceDiff_def getLength_def replaceText_def
        forEachTokenAfter_def example_template_def moveBy_def Let_def eval_nat_numeral)
qed

subsection \<open>Attribute buckets\<close>

lemma classify_text:
  "classifyAttributes g xs el = Inr el' \<Longrightarrow>
     textAttributes el' = textAttributes el @ filter (\<lambda>a. bucketOf g a = 1) xs"
  by (induction xs arbitrary: el) (simp_all add: bucketOf_def split: if_splits)

lemma classify_bound:
  "classifyAttributes g xs el = Inr el' \<Longrightarrow>
     boundAttributes el' = boundAttributes el @ filter (\<lambda>a. bucketOf g a = 2) xs"
  by (induction xs arbitrary: el) (simp_all add: bucketOf_def split: if_splits)

lemma classify_events:
  "classifyAttributes g xs el = Inr el' \<Longrightarrow>
     boundEvents el' = boundEvents el @ filter (\<lambda>a. bucketOf g a = 3) xs"
  by (induction xs arbitrary: el) (simp_all add: bucketOf_def split: if_splits)

lemma classify_banana:
  "classifyAttributes g xs el = Inr el' \<Longrightarrow>
     bananaInTheBoxes el' = bananaInTheBoxes el @ filter (\<lambda>a. bucketOf g a = 4) xs"
  by (induction xs arbitrary: el) (simp_all add: bucketOf_def split: if_splits)

lemma classify_refs:
  "classifyAttributes g xs el = Inr el' \<Longrightarrow>
     references el' = references el @ filter (\<lambda>a. bucketOf g a = 5) xs"
  by (induction xs arbitrary: el) (simp_all add: bucketOf_def split: if_splits)

lemma classify_frame:
  "classifyAttributes g xs el = Inr el' \<Longrightarrow>
     allAttributes el' = allAttributes el \<and> children el' = children el"
  by (induction xs arbitrary: el) (simp_all split: if_splits)

lemma classify_Inl:
  "(\<exists>e. classifyAttributes g xs el = Inl e) \<longleftrightarrow> (\<exists>a \<in> set xs. unclassified g a)"
  by (induction xs arbitrary: el) (auto simp: unclassified_def)

lemma bucketOf_zero: "bucketOf g a = 0 \<longleftrightarrow> unclassified g a"
  by (simp add: bucketOf_def unclassified_def)

lemma classify_all_classified:
  assumes "classifyAttributes g xs el = Inr el'"
  shows "\<forall>a \<in> set xs. bucketOf g a \<noteq> 0"
proof -
  from assms have "\<not> (\<exists>e. classifyAttributes g xs el = Inl e)" by simp
  then have "\<not> (\<exists>a \<in> set xs. unclassified g a)" using classify_Inl [of g xs el] by blast
  then show ?thesis by (simp add: bucketOf_zero)
qed

lemma mset_buckets:
  "\<forall>a \<in> set xs. bucketOf g a \<noteq> 0 \<Longrightarrow>
   mset (filter (\<lambda>a. bucketOf g a = 1) xs) + mset (filter (\<lambda>a. bucketOf g a = 2) xs)
   + mset (filter (\<lambda>a. bucketOf g a = 3) xs) + mset (filter (\<lambda>a. bucketOf g a = 4) xs)
   + mset (filter (\<lambda>a. bucketOf g a = 5) xs) = mset xs"
proof (induction xs)
  case Nil
  show ?case by simp
next
  case (Cons a xs)
  have "bucketOf g a \<le> 5" by (simp add: bucketOf_def)
  moreover from Cons.prems have "bucketOf g a \<noteq> 0" by simp
  ultimately have "bucketOf g a \<in> {1, 2, 3, 4, 5}" by auto
  with Cons show ?case by auto
qed

text \<open>
  C7. For every element-like node constructed from an attribute list: construction throws
  if and only if some attribute of the list satisfies none of the five guards; otherwise
  the five buckets are pairwise disjoint and their union is the full attribute list (as
  sets, and counting repetitions).
\<close>

theorem attribute_buckets_partition:
  "((\<exists>e. ElementLikeTemplateNode_constructor g attrs cs = Inl e)
      \<longleftrightarrow> (\<exists>a \<in> set attrs. unclassified g a))
   \<and> (ElementLikeTemplateNode_constructor g attrs cs = Inr el \<longrightarrow>
        allAttributes el = attrs
        \<and> set (textAttributes el) \<inter> set (boundAttributes el) = {}
        \<and> set (textAttributes el) \<inter> set (boundEvents el) = {}
        \<and> set (textAttributes el) \<inter> set (bananaInTheBoxes el) = {}
        \<and> set (textAttributes el) \<inter> set (references el) = {}
        \<and> set (boundAttributes el) \<inter> set (boundEvents el) = {}
        \<and> set (boundAttributes el) \<inter> set (bananaInTheBoxes el) = {}
        \<and> set (boundAttributes el) \<inter> set (references el) = {}
        \<and> set (boundEvents el) \<inter> set (bananaInTheBoxes el) = {}
        \<and> set (boundEvents el) \<inter> set (references el) = {}
        \<and> set (bananaInTheBoxes el) \<inter> set (references el) = {}
        \<and> set (textAttributes el) \<union> set (boundAttributes el) \<union> set (boundEvents el)
            \<union> set (bananaInTheBoxes el) \<union> set (references el) = set attrs
        \<and> mset (textAttributes el) + mset (boundAttributes el) + mset (boundEvents el)
            + mset (bananaInTheBoxes el) + mset (references el) = mset attrs)"
proof -
  have thrown: "(\<exists>e. ElementLikeTemplateNode_constructor g attrs cs = Inl e)
      \<longleftrightarrow> (\<exists>a \<in> set attrs. unclassified g a)"
    unfolding ElementLikeTemplateNode_constructor_def by (rule classify_Inl)
  have built: "allAttributes el = attrs
        \<and> set (textAttributes el) \<inter> set (boundAttributes el) = {}
        \<and> set (textAttributes el) \<inter> set (boundEvents el) = {}
        \<and> set (textAttributes el) \<inter> set (bananaInTheBoxes el) = {}
        \<and> set (textAttributes el) \<inter> set (references el) = {}
        \<and> set (boundAttributes el) \<inter> set (boundEvents el) = {}
        \<and> set (boundAttributes el) \<inter> set (bananaInTheBoxes el) = {}
        \<and> set (boundAttributes el) \<inter> set (references el) = {}
        \<and> set (boundEvents el) \<inter> set (bananaInTheBoxes el) = {}
        \<and> set (boundEvents el) \<inter> set (references el) = {}
        \<and> set (bananaInTheBoxes el) \<inter> set (references el) = {}
        \<and> set (textAttributes el) \<union> set (boundAttributes el) \<union> set (boundEvents el)
            \<union> set (bananaInTheBoxes el) \<union> set (references el) = set attrs
        \<and> mset (textAttributes el) + mset (boundAttributes el) + mset (boundEvents el)
            + mset (bananaInTheBoxes el) + mset (references el) = mset attrs"
    if "ElementLikeTemplateNode_constructor g attrs cs = Inr el"
  proof -
    note c = that [unfolded ElementLikeTemplateNode_constructor_def]
    have b: "textAttributes el = filter (\<lambda>a. bucketOf g a = 1) attrs"
      "boundAttributes el = filter (\<lambda>a. bucketOf g a = 2) attrs"
      "boundEvents el = filter (\<lambda>a. bucketOf g a = 3) attrs"
      "bananaInTheBoxes el = filter (\<lambda>a. bucketOf g a = 4) attrs"
      "references el = filter (\<lambda>a. bucketOf g a = 5) attrs"
      using classify_text [OF c] classify_bound [OF c] classify_events [OF c]
        classify_banana [OF c] classify_refs [OF c] by simp_all
    have all: "allAttributes el = attrs" using classify_frame [OF c] by simp
    have nz: "\<forall>a \<in> set attrs. bucketOf g a \<noteq> 0" by (rule classify_all_classified [OF c])
    have m: "mset (textAttributes el) + mset (boundAttributes el) + mset (boundEvents el)
              + mset (bananaInTheBoxes el) + mset (references el) = mset attrs"
      unfolding b by (rule mset_buckets [OF nz])
    have "set_mset (mset (textAttributes el) + mset (boundAttributes el) + mset (boundEvents el)
              + mset (bananaInTheBoxes el) + mset (references el)) = set attrs"
      unfolding m by simp
    then have u: "set (textAttributes el) \<union> set (boundAttributes el) \<union> set (boundEvents el)
              \<union> set (bananaInTheBoxes el) \<union> set (references el) = set attrs"
      by simp
    have d: "set (textAttributes el) \<inter> set (boundAttributes el) = {}"
          "set (textAttributes el) \<inter> set (boundEvents el) = {}"
          "set (textAttributes el) \<inter> set (bananaInTheBoxes el) = {}"
          "set (textAttributes el) \<inter> set (references el) = {}"
          "set (boundAttributes el) \<inter> set (boundEvents el) = {}"
          "set (boundAttributes el) \<inter> set (bananaInTheBoxes el) = {}"
          "set (boundAttributes el) \<inter> set (references el) = {}"
          "set (boundEvents el) \<inter> set (bananaInTheBoxes el) = {}"
          "set (boundEvents el) \<inter> set (references el) = {}"
          "set (bananaInTheBoxes el) \<inter> set (references el) = {}"
      unfolding b by auto
    from all d u m show ?thesis by simp
  qed
  from thrown built show ?thesis by blast
qed

theorem attribute_buckets_partition_witness:
  "ElementLikeTemplateNode_constructor (classGuards example_attrs) [10, 11, 12] [] =
     Inr \<lparr>allAttributes = [10, 11, 12], children = [], textAttributes = [11],
          boundAttributes = [], boundEvents = [], bananaInTheBoxes = [10], references = [12]\<rparr>
   \<and> unclassified (classGuards example_attrs) 13
   \<and> ElementLikeTemplateNode_constructor (classGuards example_attrs) [10, 13] [] =
       Inl (Error ''Unexpected type of attribute.'')"
  using attribute_buckets_partition [of "classGuards example_attrs" "[10, 11, 12]" "[]"
      "\<lparr>allAttributes = [10, 11, 12], children = [], textAttributes = [11],
          boundAttributes = [], boundEvents = [], bananaInTheBoxes = [10], references = [12]\<rparr>"]
    attribute_buckets_partition [of "classGuards example_attrs" "[10, 13]" "[]"]
  by (simp add: ElementLikeTemplateNode_constructor_def classGuards_def example_attrs_def
        unusedNode_def unclassified_def)

subsection \<open>trimText\<close>

lemma moveBy_zero: "moveBy 0 sp = sp"
  by (simp add: moveBy_def)

lemma replaceTextByToken_same:
  assumes "token < length (templateTokens t)" and "spanInBuffer t token"
  shows "replaceTextByToken t token (Token_toString t token) = t
     \<and> replaceDiff t token (Token_toString t token) = 0"
proof -
  let ?sp = "tokenSpan (templateTokens t ! token)"
  from assms(2) have b: "0 \<le> startOffset ?sp" "startOffset ?sp \<le> endOffset ?sp"
    "endOffset ?sp \<le> int (length (fileText t))"
    by (simp_all add: spanInBuffer_def)
  have len: "int (length (Token_toString t token)) = endOffset ?sp - startOffset ?sp"
    using b by (simp add: Token_toString_def getText_def)
  then have diff: "replaceDiff t token (Token_toString t token) = 0"
    by (simp add: replaceDiff_def getLength_def)
  have "take (nat (startOffset ?sp)) (fileText t) @ Token_toString t token
          @ drop (nat (endOffset ?sp)) (fileText t) = fileText t"
  proof -
    have e: "nat (endOffset ?sp) = nat (startOffset ?sp) + (nat (endOffset ?sp) - nat (startOffset ?sp))"
      using b by simp
    have "take (nat (endOffset ?sp) - nat (startOffset ?sp)) (drop (nat (startOffset ?sp)) (fileText t))
          @ drop (nat (endOffset ?sp)) (fileText t) = drop (nat (startOffset ?sp)) (fileText t)"
      by (subst (2) e, subst add.commute, subst drop_drop [symmetric]) (rule append_take_drop_id)
    then show ?thesis by (simp add: Token_toString_def getText_def)
  qed
  moreover have "startOffset ?sp + int (length (Token_toString t token)) = endOffset ?sp"
    using len by simp
  ultimately have "replaceText (fileText t) ?sp (Token_toString t token) = (fileText t, ?sp)"
    by (simp add: replaceText_def)
  then have "replaceTextByToken t token (Token_toString t token) = t"
    by (simp add: replaceTextByToken_def diff forEachTokenAfter_def moveBy_zero Let_def)
  with diff show ?thesis by simp
qed

text \<open>
  C8. For every Interpolation node whose current text is already trimmed (equal to its
  own trim), with its text token's span inside the text buffer, \<^verbatim>\<open>trimText\<close> is a
  zero-delta edit: it returns the store it was given, so the text token's span, every
  other token's offsets and the text buffer are as before the call, and \<^verbatim>\<open>getText\<close>
  returns the same text.
\<close>

theorem trimText_already_trimmed:
  assumes "getTextToken st this = Inr token"
    and "spanInBuffer (template st) token"
    and "Interpolation_getText st this = Inr cur"
    and "trim cur = cur"
  shows "trimText st this = Inr st
     \<and> replaceDiff (template st) token (trim cur) = 0
     \<and> Interpolation_getText st this = Inr (trim cur)"
proof -
  from assms(1) have lt: "token < length (templateTokens (template st))"
    by (simp add: getTextToken_def getFirstTokenOfTypeOrThrow_Inr)
  from assms(1,3) have cur: "cur = Token_toString (template st) token"
    by (simp add: Interpolation_getText_def)
  from replaceTextByToken_same [OF lt assms(2)] cur
  have same: "replaceTextByToken (template st) token cur = template st"
    and diff: "replaceDiff (template st) token cur = 0" by simp_all
  have "changeText st this cur = Inr st"
    using assms(1) lt same by (simp add: changeText_def)
  with assms(3,4) diff show ?thesis by (simp add: trimText_def)
qed

theorem trimText_already_trimmed_witness:
  "getTextToken example_store 1 = Inr 2
   \<and> spanInBuffer example_template 2
   \<and> Interpolation_getText example_store 1 = Inr ''{{x}}''
   \<and> trim ''{{x}}'' = ''{{x}}''
   \<and> trimText example_store 1 = Inr example_store"
proof -
  have a: "getTextToken example_store 1 = Inr 2"
    by (simp add: getTextToken_def getFirstTokenOfTypeOrThrow_def getFirstTokenOfType_def
          hasType_def example_store_def example_template_def)
  have t: "template example_store = example_template" by (simp add: example_store_def)
  have b: "spanInBuffer example_template 2"
    by (simp add: spanInBuffer_def example_template_def)
  have c: "Interpolation_getText example_store 1 = Inr ''{{x}}''"
    using a by (simp add: Interpolation_getText_def t Token_toString_def getText_def
          example_template_def)
  have d: "trim ''{{x}}'' = ''{{x}}''"
    by (simp add: trim_def isWhiteSpace_def)
  from trimText_already_trimmed [OF a b [folded t] c d] a b c d show ?thesis by simp
qed

subsection \<open>changeTagName\<close>

lemma replaceTextByToken_fileText:
  "fileText (replaceTextByToken t token newText) =
     take (nat (startOffset (tokenSpan (templateTokens t ! token)))) (fileText t) @ newText
     @ drop (nat (endOffset (tokenSpan (templateTokens t ! token)))) (fileText t)"
  by (simp add: replaceTextByToken_def replaceText_def forEachTokenAfter_def Let_def)

lemma replaceTextByToken_text:
  assumes "token < length (templateTokens t)"
    and "0 \<le> startOffset (tokenSpan (templateTokens t ! token))"
    and "startOffset (tokenSpan (templateTokens t ! token)) \<le> int (length (fileText t))"
  shows "Token_toString (replaceTextByToken t token newText) token = newText"
proof -
  let ?s = "startOffset (tokenSpan (templateTokens t ! token))"
  have l: "length (take (nat ?s) (fileText t)) = nat ?s" using assms(2,3) by simp
  have n: "nat (?s + int (length newText)) - nat ?s = length newText" using assms(2) by simp
  show ?thesis
    unfolding Token_toString_def getText_def replaceTextByToken_fileText
      replaceTextByToken_self [OF assms(1)]
    using l n by simp
qed

lemma changeTagName_steps:
  assumes "getTagOpenStartToken st this = Inr openToken"
    and "getTagEndToken st this = Inr closeToken"
  shows "changeTagName st this newTagName =
        Inr (st\<lparr>template :=
               replaceTextByToken
                 (replaceTextByToken (template st) openToken (''<'' @ newTagName))
                 closeToken (''</'' @ newTagName @ ''>'')\<rparr>)"
proof -
  from assms(1) have o: "openToken < length (templateTokens (template st))"
    by (simp add: getTagOpenStartToken_def getFirstTokenOfTypeOrThrow_Inr)
  from assms(2) have c: "closeToken < length (templateTokens (template st))"
    by (simp add: getTagEndToken_def getFirstTokenOfTypeOrThrow_Inr)
  show ?thesis
    using assms o c by (simp add: changeTagName_def replaceTextByToken_length)
qed

lemma div_open: "getTagOpenStartToken (div_store rest later) 0 = Inr 0"
  by (simp add: getTagOpenStartToken_def getFirstTokenOfTypeOrThrow_def
        getFirstTokenOfType_def hasType_def div_store_def div_template_def)

lemma div_close: "getTagEndToken (div_store rest later) 0 = Inr 2"
  by (simp add: getTagEndToken_def getFirstTokenOfTypeOrThrow_def
        getFirstTokenOfType_def hasType_def div_store_def div_template_def)

lemma div_step1:
  "replaceTextByToken (div_template rest later) 0 ''<span'' =
     \<lparr>fileText = ''<span></div>'' @ rest,
      templateTokens =
        [\<lparr>tokenType = TAG_OPEN_START, tokenSpan = \<lparr>startOffset = 0, endOffset = 5\<rparr>\<rparr>,
         \<lparr>tokenType = TAG_OPEN_END, tokenSpan = \<lparr>startOffset = 5, endOffset = 6\<rparr>\<rparr>,
         \<lparr>tokenType = TAG_CLOSE, tokenSpan = \<lparr>startOffset = 6, endOffset = 12\<rparr>\<rparr>]
        @ map (\<lambda>tk. tk\<lparr>tokenSpan := moveBy 1 (tokenSpan tk)\<rparr>) later,
      roots = [0]\<rparr>"
  by (simp add: replaceTextByToken_def replaceDiff_def getLength_def replaceText_def
        forEachTokenAfter_def div_template_def moveBy_def Let_def)

lemma div_step2:
  "replaceTextByToken (replaceTextByToken (div_template rest later) 0 ''<span'') 2 ''</span>'' =
     span_template rest later"
  unfolding div_step1
  by (simp add: replaceTextByToken_def replaceDiff_def getLength_def replaceText_def
        forEachTokenAfter_def span_template_def moveBy_def Let_def eval_nat_numeral)

text \<open>
  C4. \<^verbatim>\<open>changeTagName(name)\<close> on an Element node with an open-tag and a close-tag token is
  two mutations in order, the second applied to the document the first leaves behind,
  cascading shift included: the open-tag token is replaced by \<^verbatim>\<open>'<' + name\<close>, then the
  close-tag token by \<^verbatim>\<open>'</' + name + '>'\<close> (first conjunct); after a replacement the token's
  text is the new text (second conjunct). For the source \<^verbatim>\<open><div></div>\<close> (followed by any
  further text and tokens), \<^verbatim>\<open>changeTagName("span")\<close> leaves the text \<^verbatim>\<open><span></span>\<close>, each
  of the two edits has delta \<open>+1\<close>, and every token after \<^verbatim>\<open></div>\<close> is shifted by \<open>+2\<close>.
\<close>

theorem changeTagName_two_mutations:
  "(getTagOpenStartToken st this = Inr openToken \<and> getTagEndToken st this = Inr closeToken \<longrightarrow>
      changeTagName st this newTagName =
        Inr (st\<lparr>template :=
               replaceTextByToken
                 (replaceTextByToken (template st) openToken (''<'' @ newTagName))
                 closeToken (''</'' @ newTagName @ ''>'')\<rparr>))
   \<and> (token < length (templateTokens t)
        \<and> 0 \<le> startOffset (tokenSpan (templateTokens t ! token))
        \<and> startOffset (tokenSpan (templateTokens t ! token)) \<le> int (length (fileText t)) \<longrightarrow>
      Token_toString (replaceTextByToken t token newText) token = newText)
   \<and> changeTagName (div_store rest later) 0 ''span'' =
       Inr ((div_store rest later)\<lparr>template := span_template rest later\<rparr>)
   \<and> fileText (span_template rest later) = ''<span></span>'' @ rest
   \<and> replaceDiff (div_template rest later) 0 ''<span'' = 1
   \<and> replaceDiff (replaceTextByToken (div_template rest later) 0 ''<span'') 2 ''</span>'' = 1"
proof -
  have t: "template (div_store rest later) = div_template rest later"
    by (simp add: div_store_def)
  have scen: "changeTagName (div_store rest later) 0 ''span'' =
       Inr ((div_store rest later)\<lparr>template := span_template rest later\<rparr>)"
    using changeTagName_steps [OF div_open div_close, of rest later "''span''"]
    by (simp add: t div_step2)
  have d1: "replaceDiff (div_template rest later) 0 ''<span'' = 1"
    by (simp add: replaceDiff_def getLength_def div_template_def)
  have d2: "replaceDiff (replaceTextByToken (div_template rest later) 0 ''<span'') 2 ''</span>'' = 1"
    unfolding div_step1 by (simp add: replaceDiff_def getLength_def)
  have f: "fileText (span_template rest later) = ''<span></span>'' @ rest"
    by (simp add: span_template_def)
  from changeTagName_steps replaceTextByToken_text scen d1 d2 f show ?thesis by blast
qed

theorem changeTagName_two_mutations_witness:
  "getTagOpenStartToken example_store 2 = Inr 3 \<and> getTagEndToken example_store 2 = Inr 5
   \<and> (\<exists>st'. changeTagName example_store 2 ''em'' = Inr st'
         \<and> fileText (template st') = ''<p>{{x}}<em></em></p>''
         \<and> map tokenSpan (templateTokens (template st')) =
             [\<lparr>startOffset = 0, endOffset = 2\<rparr>, \<lparr>startOffset = 2, endOffset = 3\<rparr>,
              \<lparr>startOffset = 3, endOffset = 8\<rparr>, \<lparr>startOffset = 8, endOffset = 11\<rparr>,
              \<lparr>startOffset = 11, endOffset = 12\<rparr>, \<lparr>startOffset = 12, endOffset = 17\<rparr>,
              \<lparr>startOffset = 17, endOffset = 21\<rparr>, \<lparr>startOffset = 21, endOffset = 21\<rparr>])
   \<and> 3 < length (templateTokens example_template)
   \<and> Token_toString (replaceTextByToken example_template 3 ''<em'') 3 = ''<em''"
proof -
  have o: "getTagOpenStartToken example_store 2 = Inr 3"
    by (simp add: getTagOpenStartToken_def getFirstTokenOfTypeOrThrow_def
          getFirstTokenOfType_def hasType_def example_store_def example_template_def)
  have c: "getTagEndToken example_store 2 = Inr 5"
    by (simp add: getTagEndToken_def getFirstTokenOfTypeOrThrow_def
          getFirstTokenOfType_def hasType_def example_store_def example_template_def)
  have t: "template example_store = example_template" by (simp add: example_store_def)
  have h: "3 < length (templateTokens example_template)" by (simp add: example_template_def)
  from changeTagName_two_mutations [of example_store 2 3 5 "''em''" 3 example_template "''<em''"]
    o c h
  have r: "changeTagName example_store 2 ''em'' =
        Inr (example_store\<lparr>template :=
               replaceTextByToken (replaceTextByToken example_template 3 ''<em'') 5 ''</em>''\<rparr>)"
    and x: "Token_toString (replaceTextByToken example_template 3 ''<em'') 3 = ''<em''"
    by (simp_all add: t example_template_def)
  have "replaceTextByToken (replaceTextByToken example_template 3 ''<em'') 5 ''</em>'' =
     \<lparr>fileText = ''<p>{{x}}<em></em></p>'',
      templateTokens =
        [\<lparr>tokenType = TAG_OPEN_START, tokenSpan = \<lparr>startOffset = 0, endOffset = 2\<rparr>\<rparr>,
         \<lparr>tokenType = TAG_OPEN_END, tokenSpan = \<lparr>startOffset = 2, endOffset = 3\<rparr>\<rparr>,
         \<lparr>tokenType = TEXT, tokenSpan = \<lparr>startOffset = 3, endOffset = 8\<rparr>\<rparr>,
         \<lparr>tokenType = TAG_OPEN_START, tokenSpan = \<lparr>startOffset = 8, endOffset = 11\<rparr>\<rparr>,
         \<lparr>tokenType = TAG_OPEN_END, tokenSpan = \<lparr>startOffset = 11, endOffset = 12\<rparr>\<rparr>,
         \<lparr>tokenType = TAG_CLOSE, tokenSpan = \<lparr>startOffset = 12, endOffset = 17\<rparr>\<rparr>,
         \<lparr>tokenType = TAG_CLOSE, tokenSpan = \<lparr>startOffset = 17, endOffset = 21\<rparr>\<rparr>,
         \<lparr>tokenType = EOF, tokenSpan = \<lparr>startOffset = 21, endOffset = 21\<rparr>\<rparr>],
      roots = [0]\<rparr>"
    by (simp add: replaceTextByToken_def replaceDiff_def getLength_def replaceText_def
        forEachTokenAfter_def example_template_def moveBy_def Let_def eval_nat_numeral)
  with r x o c h show ?thesis by simp
qed

end
